theory Spec2Isabelle
  imports Main "HOL-Library.Word"
begin

unbundle bit_operations_syntax

section \<open>Text and bytes\<close>

text \<open>
  A .NET \<^verbatim>\<open>string\<close> is a sequence of UTF-16 code units; the request body is a
  sequence of bytes. Header names, header values, region names and URIs are kept as
  \<^typ>\<open>string\<close>: they are ASCII tokens in every place the code builds them.
\<close>

type_synonym byte = "8 word"
type_synonym utf16 = "16 word list"

definition utf16_of :: "string \<Rightarrow> utf16" where
  "utf16_of s = map (\<lambda>c. of_nat (of_char c)) s"

text \<open>
  \<^verbatim>\<open>Encoding.ASCII.GetBytes\<close>: a code unit below 128 is its own byte, every other
  code unit is replaced by \<^verbatim>\<open>?\<close> (the replacement fallback, once per code unit).
  \<^verbatim>\<open>Encoding.ASCII.GetString\<close> is the same rule in the other direction.
\<close>

definition ascii_byte :: "16 word \<Rightarrow> byte" where
  "ascii_byte c = (if c < 0x80 then ucast c else 0x3F)"

definition ASCII_GetBytes :: "utf16 \<Rightarrow> byte list" where
  "ASCII_GetBytes s = map ascii_byte s"

definition ascii_char :: "byte \<Rightarrow> 16 word" where
  "ascii_char b = (if b < 0x80 then ucast b else 0x3F)"

definition ASCII_GetString :: "byte list \<Rightarrow> utf16" where
  "ASCII_GetString bs = map ascii_char bs"

text \<open>
  \<^verbatim>\<open>string.Equals(a, b, StringComparison.InvariantCultureIgnoreCase)\<close> on header
  names: equality after folding the ASCII letters to lower case.
\<close>

definition to_lower :: "char \<Rightarrow> char" where
  "to_lower c =
     (if (65::nat) \<le> of_char c \<and> of_char c \<le> (90::nat)
      then (case c of Char b0 b1 b2 b3 b4 b5 b6 b7 \<Rightarrow> Char b0 b1 b2 b3 b4 True b6 b7)
      else c)"

definition equals_ignore_case :: "string \<Rightarrow> string \<Rightarrow> bool" where
  "equals_ignore_case a b = (map to_lower a = map to_lower b)"

text \<open>\<^verbatim>\<open>string.IsNullOrWhiteSpace\<close>; \<open>None\<close> is the null reference.\<close>

definition is_white_space :: "char \<Rightarrow> bool" where
  "is_white_space c =
     (let n = of_char c :: nat in (9 \<le> n \<and> n \<le> 13) \<or> n = 32 \<or> n = 133 \<or> n = 160)"

definition IsNullOrWhiteSpace :: "string option \<Rightarrow> bool" where
  "IsNullOrWhiteSpace s = (case s of None \<Rightarrow> True | Some t \<Rightarrow> list_all is_white_space t)"

text \<open>\<^verbatim>\<open>string.Join(", ", values)\<close>.\<close>

fun join_values :: "string list \<Rightarrow> string" where
  "join_values [] = []"
| "join_values [v] = v"
| "join_values (v # vs) = v @ '', '' @ join_values vs"

section \<open>JSON serialization\<close>

text \<open>
  \<^verbatim>\<open>JsonConvert.SerializeObject(new { query, operationName, variables })\<close> with the
  default settings of Json.NET: no indentation, members in declaration order, strings in
  double quotes. The default string escaping escapes the double quote, the backslash, the
  control characters below U+0020 and the three line separators U+0085, U+2028 and U+2029;
  every other code unit, in particular every other one above U+007F, is written as it is.
  How a value of the \<^verbatim>\<open>variables\<close> dictionary (an \<^verbatim>\<open>object\<close>) is
  written is the serializer's business and a parameter here.
\<close>

definition hex_digit :: "16 word \<Rightarrow> 16 word" where
  "hex_digit n = (if n < 10 then 0x30 + n else 0x61 + (n - 10))"

definition unicode_escape :: "16 word \<Rightarrow> utf16" where
  "unicode_escape c =
     [0x5C, 0x75,
      hex_digit (drop_bit 12 c AND 15), hex_digit (drop_bit 8 c AND 15),
      hex_digit (drop_bit 4 c AND 15), hex_digit (c AND 15)]"

definition escape_char :: "16 word \<Rightarrow> utf16" where
  "escape_char c =
     (if c = 0x09 then [0x5C, 0x74]
      else if c = 0x0A then [0x5C, 0x6E]
      else if c = 0x0D then [0x5C, 0x72]
      else if c = 0x0C then [0x5C, 0x66]
      else if c = 0x08 then [0x5C, 0x62]
      else if c = 0x5C then [0x5C, 0x5C]
      else if c = 0x22 then [0x5C, 0x22]
      else if c = 0x85 \<or> c = 0x2028 \<or> c = 0x2029 then unicode_escape c
      else if c < 0x20 then unicode_escape c
      else [c])"

definition write_string :: "utf16 \<Rightarrow> utf16" where
  "write_string s = [0x22] @ concat (map escape_char s) @ [0x22]"

fun write_members :: "('v \<Rightarrow> utf16) \<Rightarrow> (utf16 \<times> 'v) list \<Rightarrow> utf16" where
  "write_members wv [] = []"
| "write_members wv [(k, v)] = write_string k @ [0x3A] @ wv v"
| "write_members wv ((k, v) # rest) =
     write_string k @ [0x3A] @ wv v @ [0x2C] @ write_members wv rest"

definition write_dictionary :: "('v \<Rightarrow> utf16) \<Rightarrow> (utf16 \<times> 'v) list \<Rightarrow> utf16" where
  "write_dictionary wv d = [0x7B] @ write_members wv d @ [0x7D]"

definition SerializeObject ::
  "('v \<Rightarrow> utf16) \<Rightarrow> utf16 \<Rightarrow> utf16 \<Rightarrow> (utf16 \<times> 'v) list \<Rightarrow> utf16" where
  "SerializeObject wv query operationName variables =
     [0x7B] @ write_string (utf16_of ''query'') @ [0x3A] @ write_string query @
     [0x2C] @ write_string (utf16_of ''operationName'') @ [0x3A] @ write_string operationName @
     [0x2C] @ write_string (utf16_of ''variables'') @ [0x3A] @ write_dictionary wv variables @
     [0x7D]"

section \<open>HTTP messages\<close>

text \<open>
  A header collection maps a name to its values, names compared without regard to
  case. A request message has two collections: the request headers, and the headers
  of its content (Content-Type lives there; Content-Length is computed from the
  content's bytes when the message is sent).
\<close>

type_synonym headers = "(string \<times> string list) list"

definition header_values :: "string \<Rightarrow> headers \<Rightarrow> string list" where
  "header_values name hs = concat (map snd (filter (\<lambda>h. equals_ignore_case (fst h) name) hs))"

fun add_value :: "string \<Rightarrow> string \<Rightarrow> headers \<Rightarrow> headers" where
  "add_value name v [] = [(name, [v])]"
| "add_value name v ((k, vs) # hs) =
     (if equals_ignore_case k name then (k, vs @ [v]) # hs else (k, vs) # add_value name v hs)"

text \<open>
  \<^verbatim>\<open>Headers.Add(name, value)\<close> adds the value under the name.
  \<^verbatim>\<open>Headers.TryAddWithoutValidation(name, value)\<close> does the same when the
  collection takes the name and changes nothing (returning false, which the code ignores)
  when it does not; which names a request header collection takes is the HTTP library's
  and a parameter.
\<close>

definition Headers_Add :: "string \<Rightarrow> string \<Rightarrow> headers \<Rightarrow> headers" where
  "Headers_Add name v hs = add_value name v hs"

definition TryAddWithoutValidation ::
  "(string \<Rightarrow> bool) \<Rightarrow> string \<Rightarrow> string \<Rightarrow> headers \<Rightarrow> headers" where
  "TryAddWithoutValidation accepts name v hs = (if accepts name then add_value name v hs else hs)"

record Uri =
  OriginalString :: string
  Host :: string

record http_content =
  content_bytes :: "byte list"
  content_headers :: headers

record http_request_message =
  Method :: string
  RequestUri :: Uri
  Headers :: headers
  Content :: http_content

record http_response_message =
  StatusCode :: int
  ReasonPhrase :: string
  response_body :: "byte list"

text \<open>The header names of \<^verbatim>\<open>Amazon.Util.HeaderKeys\<close> that the code uses.\<close>

definition ContentTypeHeader :: string where
  "ContentTypeHeader = ''Content-Type''"

definition ContentLengthHeader :: string where
  "ContentLengthHeader = ''Content-Length''"

definition XAmzSecurityTokenHeader :: string where
  "XAmzSecurityTokenHeader = ''x-amz-security-token''"

definition HostHeader :: string where
  "HostHeader = ''host''"

text \<open>
  \<^verbatim>\<open>new StringContent(jsonPayload, Encoding.ASCII, MediaTypeNames.Application.Json)\<close>:
  the bytes are the ASCII encoding of the string, and the content type names the media
  type and the encoding's charset.
\<close>

definition StringContent :: "utf16 \<Rightarrow> http_content" where
  "StringContent s =
     \<lparr>content_bytes = ASCII_GetBytes s,
      content_headers = [(''Content-Type'', [''application/json; charset=us-ascii''])]\<rparr>"

text \<open>\<^verbatim>\<open>ReadAsStringAsync\<close> decodes the bytes with the content type's charset.\<close>

definition ReadAsStringAsync :: "http_content \<Rightarrow> utf16" where
  "ReadAsStringAsync c = ASCII_GetString (content_bytes c)"

text \<open>
  \<^verbatim>\<open>EnsureSuccessStatusCode\<close> and the errors of the program. The exception of a
  response outside 200..299 is built from the status code and the reason phrase of the
  response.
\<close>

datatype error =
    ArgumentNullException
  | UriFormatException
  | NullReferenceException
  | AmazonServiceException
  | SendAsyncFailed
  | HttpRequestException int string

definition IsSuccessStatusCode :: "http_response_message \<Rightarrow> bool" where
  "IsSuccessStatusCode r = (200 \<le> StatusCode r \<and> StatusCode r \<le> 299)"

definition EnsureSuccessStatusCode :: "http_response_message \<Rightarrow> error + unit" where
  "EnsureSuccessStatusCode r =
     (if IsSuccessStatusCode r then Inr ()
      else Inl (HttpRequestException (StatusCode r) (ReasonPhrase r)))"

section \<open>The signed GraphQL dispatcher\<close>

text \<open>
  The class \<^verbatim>\<open>AppSyncOperations\<close> of
  \<^verbatim>\<open>functions/dotnet/module1/AppSyncOperations.cs\<close>; line numbers are those
  of that file.
\<close>

record RegionEndpoint =
  SystemName :: string

record ImmutableCredentials =
  AccessKey :: string
  SecretKey :: string
  Token :: string

text \<open>
  The signer's request object (\<^verbatim>\<open>DefaultRequest\<close>); its header dictionary has
  one value per name, names compared without regard to case.
\<close>

record aws_request =
  ServiceName :: string
  aws_Content :: "byte list"
  HttpMethod :: string
  Endpoint :: Uri
  AlternateEndpoint :: RegionEndpoint
  aws_Headers :: "(string \<times> string) list"

fun set_header :: "string \<Rightarrow> string \<Rightarrow> (string \<times> string) list \<Rightarrow> (string \<times> string) list" where
  "set_header name v [] = [(name, v)]"
| "set_header name v ((k, x) # hs) =
     (if equals_ignore_case k name then (k, v) # hs else (k, x) # set_header name v hs)"

text \<open>
  What the program calls and does not define: the URI parser (\<open>None\<close> is
  \<^verbatim>\<open>UriFormatException\<close>), the SDK's table of region endpoints, the writer of a
  variable's value, the headers that \<^verbatim>\<open>AWS4Signer.Sign\<close> leaves on the request
  it is given, the names a request header collection takes, and the server behind
  \<^verbatim>\<open>HttpClient.SendAsync\<close> (\<open>None\<close> is a transport failure). The signer
  reads the request object, the client configuration, the metrics and the credentials it
  is called with (line 70).
\<close>

text \<open>
  The client configuration of a service names the service for signing. For
  \<^verbatim>\<open>new AmazonAppSyncConfig()\<close> the SDK sets that name to
  \<^verbatim>\<open>appsync\<close>; whatever else the configuration holds is the SDK's and left to
  the signer.
\<close>

record client_config =
  AuthenticationServiceName :: string

definition AmazonAppSyncConfig :: client_config where
  "AmazonAppSyncConfig = \<lparr>AuthenticationServiceName = ''appsync''\<rparr>"

record 'v platform =
  new_Uri :: "string \<Rightarrow> Uri option"
  region_by_name :: "string \<Rightarrow> RegionEndpoint"
  write_value :: "'v \<Rightarrow> utf16"
  signature_headers ::
    "aws_request \<Rightarrow> client_config \<Rightarrow> unit option \<Rightarrow> ImmutableCredentials \<Rightarrow>
       (string \<times> string) list"
  accepts_header :: "string \<Rightarrow> bool"
  send :: "http_request_message \<Rightarrow> http_response_message option"

text \<open>
  The world outside the dispatcher: the environment variables, what the default
  credential chain yields at this moment (\<open>None\<close>: no credentials can be found), and
  the record of what was handed to the signer and what was sent, oldest first.
\<close>

record world =
  environment :: "string \<rightharpoonup> string"
  ambient_credentials :: "ImmutableCredentials option"
  signer_calls :: "(aws_request \<times> ImmutableCredentials) list"
  network :: "http_request_message list"

record AppSyncOperations =
  this_graphQlEndpoint :: Uri
  this_awsRegion :: RegionEndpoint

text \<open>\<^verbatim>\<open>RegionEndpoint.GetBySystemName\<close>: a null name is an error of the lookup.\<close>

definition GetBySystemName :: "(string \<Rightarrow> RegionEndpoint) \<Rightarrow> string option \<Rightarrow> error + RegionEndpoint" where
  "GetBySystemName table systemName =
     (case systemName of None \<Rightarrow> Inl ArgumentNullException | Some s \<Rightarrow> Inr (table s))"

text \<open>The constructor (lines 27 to 33).\<close>

definition AppSyncOperations_new ::
  "'v platform \<Rightarrow> world \<Rightarrow> string option \<Rightarrow> string option \<Rightarrow> error + AppSyncOperations" where
  "AppSyncOperations_new plat w graphQlEndpoint awsRegion =
     (case graphQlEndpoint of
        None \<Rightarrow> Inl ArgumentNullException
      | Some e \<Rightarrow>
          (case new_Uri plat e of
             None \<Rightarrow> Inl UriFormatException
           | Some uri \<Rightarrow>
               (let awsRegion' =
                      (if IsNullOrWhiteSpace awsRegion then environment w ''AWS_REGION''
                       else awsRegion)
                in case GetBySystemName (region_by_name plat) awsRegion' of
                     Inl err \<Rightarrow> Inl err
                   | Inr region \<Rightarrow>
                       Inr \<lparr>this_graphQlEndpoint = uri, this_awsRegion = region\<rparr>)))"

text \<open>The draft request (lines 44 to 51).\<close>

definition draft_request ::
  "AppSyncOperations \<Rightarrow> ImmutableCredentials \<Rightarrow> utf16 \<Rightarrow> http_request_message" where
  "draft_request this immutableCredentials jsonPayload =
     \<lparr>Method = ''POST'',
      RequestUri = this_graphQlEndpoint this,
      Headers =
        Headers_Add HostHeader (Host (this_graphQlEndpoint this))
          (Headers_Add XAmzSecurityTokenHeader (Token immutableCredentials) []),
      Content = StringContent jsonPayload\<rparr>"

text \<open>The signer's request object, with the draft's headers copied in (lines 54 to 67).\<close>

fun copy_headers :: "headers \<Rightarrow> (string \<times> string) list \<Rightarrow> (string \<times> string) list" where
  "copy_headers [] acc = acc"
| "copy_headers ((k, vs) # hs) acc = copy_headers hs (set_header k (join_values vs) acc)"

definition aws_request_of :: "AppSyncOperations \<Rightarrow> http_request_message \<Rightarrow> aws_request" where
  "aws_request_of this httpRequestMessage =
     (let rawBytes = ASCII_GetBytes (ReadAsStringAsync (Content httpRequestMessage))
      in \<lparr>ServiceName = ''appsync'',
          aws_Content = rawBytes,
          HttpMethod = ''POST'',
          Endpoint = this_graphQlEndpoint this,
          AlternateEndpoint = this_awsRegion this,
          aws_Headers =
            copy_headers
              (Headers httpRequestMessage @ content_headers (Content httpRequestMessage)) []\<rparr>)"

text \<open>The header merge after signing (lines 75 to 86).\<close>

fun merge_signed_headers ::
  "(string \<Rightarrow> bool) \<Rightarrow> (string \<times> string) list \<Rightarrow> headers \<Rightarrow> headers" where
  "merge_signed_headers accepts [] hs = hs"
| "merge_signed_headers accepts ((k, v) # rest) hs =
     merge_signed_headers accepts rest
       (if \<not> equals_ignore_case k ContentTypeHeader \<and>
           \<not> equals_ignore_case k ContentLengthHeader \<and>
           \<not> equals_ignore_case k XAmzSecurityTokenHeader \<and>
           \<not> equals_ignore_case k HostHeader
        then TryAddWithoutValidation accepts k v hs
        else hs)"

text \<open>The four names the merge leaves alone, in any letter case.\<close>

definition protected_header :: "string \<Rightarrow> bool" where
  "protected_header name =
     (equals_ignore_case name ContentTypeHeader \<or>
      equals_ignore_case name ContentLengthHeader \<or>
      equals_ignore_case name XAmzSecurityTokenHeader \<or>
      equals_ignore_case name HostHeader)"

text \<open>
  The two calls that reach outside. \<^verbatim>\<open>signer.Sign(request, config, metrics,
  credentials)\<close> leaves its headers on the request object, and the world remembers what
  the signer was given; \<^verbatim>\<open>httpClient.SendAsync(request)\<close> puts the request on
  the network and yields the server's answer.
\<close>

definition AWS4Signer_Sign ::
  "'v platform \<Rightarrow> aws_request \<Rightarrow> client_config \<Rightarrow> unit option \<Rightarrow>
     ImmutableCredentials \<Rightarrow> world \<Rightarrow> (string \<times> string) list \<times> world" where
  "AWS4Signer_Sign plat request clientConfig metrics credentials w =
     (signature_headers plat request clientConfig metrics credentials,
      w\<lparr>signer_calls := signer_calls w @ [(request, credentials)]\<rparr>)"

definition SendAsync ::
  "'v platform \<Rightarrow> http_request_message \<Rightarrow> world \<Rightarrow>
     http_response_message option \<times> world" where
  "SendAsync plat request w = (send plat request, w\<lparr>network := network w @ [request]\<rparr>)"

text \<open>
  \<^verbatim>\<open>RunGraphql\<close> (lines 35 to 90). The result is the outcome of the call, the
  dispatcher object after it, and the world after it.
\<close>

definition RunGraphql ::
  "'v platform \<Rightarrow> AppSyncOperations \<Rightarrow> utf16 \<Rightarrow> utf16 \<Rightarrow> (utf16 \<times> 'v) list \<Rightarrow> world \<Rightarrow>
     (error + unit) \<times> AppSyncOperations \<times> world" where
  "RunGraphql plat this query operationName variables w =
     (case ambient_credentials w of
        None \<Rightarrow> (Inl AmazonServiceException, this, w)
      | Some immutableCredentials \<Rightarrow>
          (let jsonPayload = SerializeObject (write_value plat) query operationName variables;
               httpRequestMessage = draft_request this immutableCredentials jsonPayload;
               awsRequest = aws_request_of this httpRequestMessage;
               (signedHeaders, w1) =
                 AWS4Signer_Sign plat awsRequest AmazonAppSyncConfig None immutableCredentials w;
               outgoing = httpRequestMessage
                 \<lparr>Headers := merge_signed_headers (accepts_header plat) signedHeaders
                     (Headers httpRequestMessage)\<rparr>;
               (response, w2) = SendAsync plat outgoing w1
           in case response of
                None \<Rightarrow> (Inl SendAsyncFailed, this, w2)
              | Some httpResponseMessage \<Rightarrow>
                  (EnsureSuccessStatusCode httpResponseMessage, this, w2)))"

text \<open>
  Names for values a call of \<^verbatim>\<open>RunGraphql\<close> computes once the credentials
  are there: the headers the signer leaves when called as in line 70, the draft request,
  the request object handed to the signer, and the request that is sent.
\<close>

definition sign ::
  "'v platform \<Rightarrow> aws_request \<Rightarrow> ImmutableCredentials \<Rightarrow> (string \<times> string) list" where
  "sign plat request credentials =
     signature_headers plat request AmazonAppSyncConfig None credentials"

definition draft_of ::
  "'v platform \<Rightarrow> AppSyncOperations \<Rightarrow> ImmutableCredentials \<Rightarrow>
     utf16 \<Rightarrow> utf16 \<Rightarrow> (utf16 \<times> 'v) list \<Rightarrow> http_request_message" where
  "draft_of plat this c query operationName variables =
     draft_request this c (SerializeObject (write_value plat) query operationName variables)"

definition signer_request_of ::
  "'v platform \<Rightarrow> AppSyncOperations \<Rightarrow> ImmutableCredentials \<Rightarrow>
     utf16 \<Rightarrow> utf16 \<Rightarrow> (utf16 \<times> 'v) list \<Rightarrow> aws_request" where
  "signer_request_of plat this c query operationName variables =
     aws_request_of this (draft_of plat this c query operationName variables)"

definition outgoing_of ::
  "'v platform \<Rightarrow> AppSyncOperations \<Rightarrow> ImmutableCredentials \<Rightarrow>
     utf16 \<Rightarrow> utf16 \<Rightarrow> (utf16 \<times> 'v) list \<Rightarrow> http_request_message" where
  "outgoing_of plat this c query operationName variables =
     (draft_of plat this c query operationName variables)
       \<lparr>Headers :=
          merge_signed_headers (accepts_header plat)
            (sign plat (signer_request_of plat this c query operationName variables) c)
            (Headers (draft_of plat this c query operationName variables))\<rparr>"

section \<open>The image resizer\<close>

text \<open>
  The class \<^verbatim>\<open>ImageResizer\<close>, in the same source file. The dimensions are
  32-bit integers of which the code only takes minima, so they are integers here.
  A bitmap is its dimensions and its pixels. The codec is the image library's: decoding
  (\<open>None\<close> is the null bitmap of an input that does not decode), resampling the
  pixels of a bitmap into a width and a height (\<open>None\<close> when the library cannot),
  and encoding (\<open>None\<close> is the null data of a failed encoding).
\<close>

record 'p SKBitmap =
  Width :: int
  Height :: int
  Pixels :: 'p

record 'p skia =
  Decode :: "byte list \<Rightarrow> 'p SKBitmap option"
  ScalePixels :: "'p SKBitmap \<Rightarrow> int \<Rightarrow> int \<Rightarrow> 'p option"
  Encode :: "'p SKBitmap \<Rightarrow> byte list option"

record Size =
  Size_Width :: int
  Size_Height :: int

text \<open>
  \<^verbatim>\<open>SKBitmap.Resize(new SKImageInfo(width, height), quality)\<close>: null for an empty
  image info (a width or a height that is not positive) and when scaling fails,
  otherwise a bitmap of exactly the width and height asked for.
\<close>

definition SKBitmap_Resize ::
  "'p skia \<Rightarrow> 'p SKBitmap \<Rightarrow> int \<Rightarrow> int \<Rightarrow> 'p SKBitmap option" where
  "SKBitmap_Resize lib src width height =
     (if width \<le> 0 \<or> height \<le> 0 then None
      else (case ScalePixels lib src width height of
              None \<Rightarrow> None
            | Some p \<Rightarrow> Some \<lparr>Width = width, Height = height, Pixels = p\<rparr>))"

text \<open>
  \<^verbatim>\<open>Resize\<close> (lines 114 to 127): reading a dimension of the null bitmap, and
  reading the bytes of null data, is a \<^verbatim>\<open>NullReferenceException\<close>; an image
  made from the null bitmap is an \<^verbatim>\<open>ArgumentNullException\<close>.
\<close>

definition Resize :: "'p skia \<Rightarrow> byte list \<Rightarrow> int \<Rightarrow> int \<Rightarrow> error + byte list" where
  "Resize lib fileContents maxWidth maxHeight =
     (case Decode lib fileContents of
        None \<Rightarrow> Inl NullReferenceException
      | Some sourceBitmap \<Rightarrow>
          (let height = min maxHeight (Height sourceBitmap);
               width = min maxWidth (Width sourceBitmap)
           in case SKBitmap_Resize lib sourceBitmap width height of
                None \<Rightarrow> Inl ArgumentNullException
              | Some scaledBitmap \<Rightarrow>
                  (case Encode lib scaledBitmap of
                     None \<Rightarrow> Inl NullReferenceException
                   | Some data \<Rightarrow> Inr data)))"

text \<open>\<^verbatim>\<open>ResizeAsync\<close> (lines 106 to 112); a stream is the bytes left in it.\<close>

definition ResizeAsync :: "'p skia \<Rightarrow> byte list \<Rightarrow> Size \<Rightarrow> error + byte list" where
  "ResizeAsync lib stream maxSize = Resize lib stream (Size_Width maxSize) (Size_Height maxSize)"

section \<open>Fixtures\<close>

text \<open>
  A concrete platform and world, for evaluating the definitions: the endpoint
  \<^verbatim>\<open>https://example.com/graphql\<close>, the credentials A, B, T, a signer that adds a
  date and an authorization header and also rewrites the four protected headers, and a
  server that answers with a fixed response.
\<close>

definition example_uri :: Uri where
  "example_uri = \<lparr>OriginalString = ''https://example.com/graphql'', Host = ''example.com''\<rparr>"

definition example_credentials :: ImmutableCredentials where
  "example_credentials = \<lparr>AccessKey = ''A'', SecretKey = ''B'', Token = ''T''\<rparr>"

definition example_sign :: "aws_request \<Rightarrow> ImmutableCredentials \<Rightarrow> (string \<times> string) list" where
  "example_sign r c =
     set_header ''Authorization'' (''AWS4-HMAC-SHA256 Credential='' @ AccessKey c)
       (set_header ''X-Amz-Date'' ''20240101T000000Z''
         (set_header ''Content-Length'' ''0''
           (set_header ''Content-Type'' ''text/plain''
             (set_header ''X-Amz-Security-Token'' ''other''
               (set_header ''Host'' ''other.example'' (aws_Headers r))))))"

definition example_platform :: "http_response_message \<Rightarrow> unit platform" where
  "example_platform response =
     \<lparr>new_Uri = (\<lambda>s. if s = ''https://example.com/graphql'' then Some example_uri else None),
      region_by_name = (\<lambda>s. \<lparr>SystemName = s\<rparr>),
      write_value = (\<lambda>_. utf16_of ''null''),
      signature_headers = (\<lambda>r config metrics c. example_sign r c),
      accepts_header = (\<lambda>_. True),
      send = (\<lambda>_. Some response)\<rparr>"

text \<open>A signer that writes down the scope and the key it is given.\<close>

definition scope_sign ::
  "aws_request \<Rightarrow> client_config \<Rightarrow> unit option \<Rightarrow> ImmutableCredentials \<Rightarrow>
     (string \<times> string) list" where
  "scope_sign r config metrics c =
     set_header ''X-Scope''
       (AuthenticationServiceName config @ ''/'' @ ServiceName r @ ''/'' @
        SystemName (AlternateEndpoint r) @ ''/'' @ SecretKey c)
       (aws_Headers r)"

definition example_world :: "ImmutableCredentials option \<Rightarrow> world" where
  "example_world c =
     \<lparr>environment = [''AWS_REGION'' \<mapsto> ''eu-west-1''],
      ambient_credentials = c,
      signer_calls = [],
      network = []\<rparr>"

definition example_dispatcher :: AppSyncOperations where
  "example_dispatcher =
     \<lparr>this_graphQlEndpoint = example_uri, this_awsRegion = \<lparr>SystemName = ''us-east-1''\<rparr>\<rparr>"

definition ok_response :: http_response_message where
  "ok_response = \<lparr>StatusCode = 200, ReasonPhrase = ''OK'', response_body = []\<rparr>"

definition forbidden_response :: "string \<Rightarrow> http_response_message" where
  "forbidden_response body =
     \<lparr>StatusCode = 403, ReasonPhrase = ''Forbidden'',
      response_body = ASCII_GetBytes (utf16_of body)\<rparr>"

definition example_skia :: "unit skia" where
  "example_skia =
     \<lparr>Decode = (\<lambda>bs. if bs = [] then None
                    else Some \<lparr>Width = 640, Height = 480, Pixels = ()\<rparr>),
      ScalePixels = (\<lambda>_ _ _. Some ()),
      Encode = (\<lambda>b. Some [word_of_int (Width b), word_of_int (Height b)])\<rparr>"

section \<open>Facts about the definitions\<close>

subsection \<open>Header collections\<close>

lemma to_lower_idem: "to_lower (to_lower c) = to_lower c"
  by (cases c) (auto simp add: to_lower_def)

lemma equals_ignore_case_refl: "equals_ignore_case a a"
  by (simp add: equals_ignore_case_def)

lemma equals_ignore_case_sym: "equals_ignore_case a b \<Longrightarrow> equals_ignore_case b a"
  by (simp add: equals_ignore_case_def)

lemma equals_ignore_case_trans:
  "equals_ignore_case a b \<Longrightarrow> equals_ignore_case b c \<Longrightarrow> equals_ignore_case a c"
  by (simp add: equals_ignore_case_def)

lemma protected_header_cong:
  "equals_ignore_case k n \<Longrightarrow> protected_header k = protected_header n"
  by (auto simp add: protected_header_def equals_ignore_case_def)

lemma header_values_Nil: "header_values n [] = []"
  by (simp add: header_values_def)

lemma header_values_Cons:
  "header_values n ((k, vs) # hs) =
     (if equals_ignore_case k n then vs @ header_values n hs else header_values n hs)"
  by (simp add: header_values_def)

lemma header_values_add_value_other:
  "\<not> equals_ignore_case k n \<Longrightarrow> header_values n (add_value k v hs) = header_values n hs"
proof (induction hs)
  case Nil
  then show ?case by (simp add: header_values_Nil header_values_Cons)
next
  case (Cons h hs)
  obtain k' vs where h: "h = (k', vs)" by (cases h)
  show ?case
  proof (cases "equals_ignore_case k' k")
    case True
    then have "\<not> equals_ignore_case k' n"
      using Cons.prems equals_ignore_case_sym equals_ignore_case_trans by blast
    then show ?thesis using True h by (simp add: header_values_Cons)
  next
    case False
    then show ?thesis using Cons h by (simp add: header_values_Cons)
  qed
qed

lemma header_values_add_value_mem: "v \<in> set (header_values k (add_value k v hs))"
proof (induction hs)
  case Nil
  then show ?case by (simp add: header_values_Cons header_values_Nil equals_ignore_case_refl)
next
  case (Cons h hs)
  obtain k' vs where h: "h = (k', vs)" by (cases h)
  show ?case using Cons h by (simp add: header_values_Cons)
qed

lemma header_values_add_value_mono:
  "x \<in> set (header_values n hs) \<Longrightarrow> x \<in> set (header_values n (add_value k v hs))"
proof (induction hs)
  case Nil
  then show ?case by (simp add: header_values_Nil)
next
  case (Cons h hs)
  obtain k' vs where h: "h = (k', vs)" by (cases h)
  show ?case using Cons h by (auto simp add: header_values_Cons split: if_splits)
qed

lemma merge_protected:
  "protected_header n \<Longrightarrow>
   header_values n (merge_signed_headers accepts sh hs) = header_values n hs"
proof (induction sh arbitrary: hs)
  case Nil
  then show ?case by simp
next
  case (Cons h sh)
  obtain k v where h: "h = (k, v)" by (cases h)
  show ?case
  proof (cases "protected_header k")
    case True
    then have "merge_signed_headers accepts (h # sh) hs = merge_signed_headers accepts sh hs"
      using h by (auto simp add: protected_header_def)
    then show ?thesis using Cons by simp
  next
    case False
    then have ne: "\<not> equals_ignore_case k n"
      using Cons.prems protected_header_cong by blast
    have "merge_signed_headers accepts (h # sh) hs =
          merge_signed_headers accepts sh (TryAddWithoutValidation accepts k v hs)"
      using False h by (auto simp add: protected_header_def)
    then show ?thesis
      using Cons ne by (simp add: TryAddWithoutValidation_def header_values_add_value_other)
  qed
qed

lemma merge_mono:
  "x \<in> set (header_values n hs) \<Longrightarrow>
   x \<in> set (header_values n (merge_signed_headers accepts sh hs))"
proof (induction sh arbitrary: hs)
  case Nil
  then show ?case by simp
next
  case (Cons h sh)
  obtain k v where h: "h = (k, v)" by (cases h)
  show ?case using Cons h
    by (simp add: TryAddWithoutValidation_def header_values_add_value_mono)
qed

lemma merge_copies:
  "(k, v) \<in> set sh \<Longrightarrow> \<not> protected_header k \<Longrightarrow> accepts k \<Longrightarrow>
   v \<in> set (header_values k (merge_signed_headers accepts sh hs))"
proof (induction sh arbitrary: hs)
  case Nil
  then show ?case by simp
next
  case (Cons h sh)
  show ?case
  proof (cases "h = (k, v)")
    case True
    have "merge_signed_headers accepts (h # sh) hs =
          merge_signed_headers accepts sh (add_value k v hs)"
      using True Cons.prems by (auto simp add: protected_header_def TryAddWithoutValidation_def)
    then show ?thesis
      by (simp add: merge_mono header_values_add_value_mem)
  next
    case False
    obtain k' v' where h: "h = (k', v')" by (cases h)
    from False have "(k, v) \<in> set sh" using Cons.prems by simp
    then show ?thesis using Cons h by simp
  qed
qed

subsection \<open>ASCII encoding\<close>

lemma ascii_byte_lt: "ascii_byte c < 0x80"
  by (simp add: ascii_byte_def word_less_nat_alt unsigned_ucast_eq take_bit_nat_eq_self)

lemma ascii_byte_char_id: "b < 0x80 \<Longrightarrow> ascii_byte (ascii_char b) = b"
  by (simp add: ascii_byte_def ascii_char_def word_less_nat_alt unsigned_ucast_eq take_bit_nat_eq_self word_unat_eq_iff unsigned_take_bit_eq)

lemma ascii_char_byte_id: "c < 0x80 \<Longrightarrow> ascii_char (ascii_byte c) = c"
  by (simp add: ascii_byte_def ascii_char_def word_less_nat_alt unsigned_ucast_eq take_bit_nat_eq_self word_unat_eq_iff unsigned_take_bit_eq)

lemma ASCII_roundtrip: "ASCII_GetBytes (ASCII_GetString (ASCII_GetBytes s)) = ASCII_GetBytes s"
  by (simp add: ASCII_GetBytes_def ASCII_GetString_def ascii_byte_char_id ascii_byte_lt)

lemma ASCII_lossless:
  "list_all (\<lambda>c. c < 0x80) s \<Longrightarrow> ASCII_GetString (ASCII_GetBytes s) = s"
  by (induction s) (simp_all add: ASCII_GetString_def ASCII_GetBytes_def ascii_char_byte_id)

subsection \<open>The draft request and the shape of a call\<close>

lemma draft_token: "header_values XAmzSecurityTokenHeader (Headers (draft_request this c p)) = [Token c]"
  by (simp add: draft_request_def Headers_Add_def header_values_def XAmzSecurityTokenHeader_def
      HostHeader_def equals_ignore_case_def to_lower_def)

lemma draft_host: "header_values HostHeader (Headers (draft_request this c p)) = [Host (this_graphQlEndpoint this)]"
  by (simp add: draft_request_def Headers_Add_def header_values_def XAmzSecurityTokenHeader_def
      HostHeader_def equals_ignore_case_def to_lower_def)

lemma draft_content_type:
  "header_values ContentTypeHeader (content_headers (Content (draft_request this c p))) =
     [''application/json; charset=us-ascii'']"
  by (simp add: draft_request_def StringContent_def header_values_def ContentTypeHeader_def
      equals_ignore_case_def)

lemma draft_no_content_type:
  "header_values ContentTypeHeader (Headers (draft_request this c p)) = []"
  by (simp add: draft_request_def Headers_Add_def header_values_def XAmzSecurityTokenHeader_def
      HostHeader_def ContentTypeHeader_def equals_ignore_case_def to_lower_def)

lemma draft_no_content_length:
  "header_values ContentLengthHeader (Headers (draft_request this c p)) = []"
  by (simp add: draft_request_def Headers_Add_def header_values_def XAmzSecurityTokenHeader_def
      HostHeader_def ContentLengthHeader_def equals_ignore_case_def to_lower_def)

lemma RunGraphql_Some:
  assumes "ambient_credentials w = Some c"
  shows "RunGraphql plat this query operationName variables w =
    ((case send plat (outgoing_of plat this c query operationName variables) of
        None \<Rightarrow> Inl SendAsyncFailed
      | Some r \<Rightarrow> EnsureSuccessStatusCode r),
     this,
     w\<lparr>signer_calls :=
           signer_calls w @ [(signer_request_of plat this c query operationName variables, c)],
       network := network w @ [outgoing_of plat this c query operationName variables]\<rparr>)"
  using assms
  by (simp add: RunGraphql_def AWS4Signer_Sign_def SendAsync_def sign_def outgoing_of_def
      signer_request_of_def draft_of_def Let_def split: option.splits)

section \<open>Credential resolution\<close>

text \<open>
  C4. When the ambient credential chain yields no credentials, the call fails with the
  credential error of the SDK and hands back the world as it found it: nothing was given
  to the signer and nothing was sent.
\<close>

theorem no_credentials_no_network_call:
  "ambient_credentials w = None \<Longrightarrow>
   RunGraphql plat this query operationName variables w = (Inl AmazonServiceException, this, w) \<and>
   network (snd (snd (RunGraphql plat this query operationName variables w))) = network w"
  by (simp add: RunGraphql_def)

theorem no_credentials_no_network_call_witness:
  "ambient_credentials (example_world None) = None \<and>
   RunGraphql (example_platform ok_response) example_dispatcher
       (utf16_of ''{ping}'') (utf16_of ''Ping'') [] (example_world None)
     = (Inl AmazonServiceException, example_dispatcher, example_world None) \<and>
   network (example_world None) = []"
  using no_credentials_no_network_call
    [of "example_world None" "example_platform ok_response" example_dispatcher
        "utf16_of ''{ping}''" "utf16_of ''Ping''" "[]"]
  by (simp add: example_world_def)

section \<open>The header merge\<close>

text \<open>
  C1. In every call that resolves credentials, the request that is sent is the draft
  with the signer's headers merged in. Whatever headers the signer leaves on its request
  object, the merge leaves the content of the draft alone (its bytes, hence its length,
  and its Content-Type), and under each of the four protected names, in any letter case,
  the request headers hold what the draft held: the token of the credentials, the host of
  the endpoint, and nothing under Content-Type and Content-Length. Every other header of
  the signer whose name the request header collection takes is found in the request that
  is sent.
\<close>

theorem protected_headers_survive_merge:
  assumes "ambient_credentials w = Some c"
  shows
    "network (snd (snd (RunGraphql plat this query operationName variables w))) =
       network w @ [outgoing_of plat this c query operationName variables] \<and>
     Content (outgoing_of plat this c query operationName variables) =
       Content (draft_of plat this c query operationName variables) \<and>
     (\<forall>n. protected_header n \<longrightarrow>
        header_values n (Headers (outgoing_of plat this c query operationName variables)) =
        header_values n (Headers (draft_of plat this c query operationName variables))) \<and>
     header_values XAmzSecurityTokenHeader
        (Headers (outgoing_of plat this c query operationName variables)) = [Token c] \<and>
     header_values HostHeader
        (Headers (outgoing_of plat this c query operationName variables)) =
        [Host (this_graphQlEndpoint this)] \<and>
     header_values ContentTypeHeader
        (content_headers (Content (outgoing_of plat this c query operationName variables))) =
        [''application/json; charset=us-ascii''] \<and>
     header_values ContentTypeHeader
        (Headers (outgoing_of plat this c query operationName variables)) = [] \<and>
     header_values ContentLengthHeader
        (Headers (outgoing_of plat this c query operationName variables)) = [] \<and>
     (\<forall>(k, v) \<in> set (sign plat (signer_request_of plat this c query operationName variables) c).
        \<not> protected_header k \<and> accepts_header plat k \<longrightarrow>
        v \<in> set (header_values k
               (Headers (outgoing_of plat this c query operationName variables))))"
proof -
  let ?draft = "draft_of plat this c query operationName variables"
  let ?out = "outgoing_of plat this c query operationName variables"
  let ?signed = "sign plat (signer_request_of plat this c query operationName variables) c"
  have hs: "Headers ?out = merge_signed_headers (accepts_header plat) ?signed (Headers ?draft)"
    by (simp add: outgoing_of_def)
  have sent: "network (snd (snd (RunGraphql plat this query operationName variables w))) =
      network w @ [?out]"
    using assms by (simp add: RunGraphql_Some)
  have content: "Content ?out = Content ?draft"
    by (simp add: outgoing_of_def)
  have kept: "\<forall>n. protected_header n \<longrightarrow>
      header_values n (Headers ?out) = header_values n (Headers ?draft)"
    by (simp add: hs merge_protected)
  have p_token: "protected_header XAmzSecurityTokenHeader"
    and p_host: "protected_header HostHeader"
    and p_type: "protected_header ContentTypeHeader"
    and p_length: "protected_header ContentLengthHeader"
    by (simp_all add: protected_header_def equals_ignore_case_refl)
  have token: "header_values XAmzSecurityTokenHeader (Headers ?out) = [Token c]"
    using kept p_token by (simp add: draft_of_def draft_token)
  have host: "header_values HostHeader (Headers ?out) = [Host (this_graphQlEndpoint this)]"
    using kept p_host by (simp add: draft_of_def draft_host)
  have ctype: "header_values ContentTypeHeader (content_headers (Content ?out)) =
      [''application/json; charset=us-ascii'']"
    by (simp add: content draft_of_def draft_content_type)
  have no_type: "header_values ContentTypeHeader (Headers ?out) = []"
    using kept p_type by (simp add: draft_of_def draft_no_content_type)
  have no_length: "header_values ContentLengthHeader (Headers ?out) = []"
    using kept p_length by (simp add: draft_of_def draft_no_content_length)
  have copied: "\<forall>(k, v) \<in> set ?signed.
      \<not> protected_header k \<and> accepts_header plat k \<longrightarrow>
      v \<in> set (header_values k (Headers ?out))"
    by (auto simp add: hs merge_copies)
  show ?thesis
    using sent content kept token host ctype no_type no_length copied by blast
qed

theorem protected_headers_survive_merge_witness:
  "ambient_credentials (example_world (Some example_credentials)) = Some example_credentials \<and>
   (''host'', ''other.example'') \<in> set (sign (example_platform ok_response)
      (signer_request_of (example_platform ok_response) example_dispatcher example_credentials
         (utf16_of ''{ping}'') (utf16_of ''Ping'') []) example_credentials) \<and>
   header_values ''Host''
     (Headers (outgoing_of (example_platform ok_response) example_dispatcher example_credentials
        (utf16_of ''{ping}'') (utf16_of ''Ping'') [])) = [''example.com''] \<and>
   header_values ''X-Amz-Security-Token''
     (Headers (outgoing_of (example_platform ok_response) example_dispatcher example_credentials
        (utf16_of ''{ping}'') (utf16_of ''Ping'') [])) = [''T''] \<and>
   ''20240101T000000Z'' \<in> set (header_values ''X-Amz-Date''
     (Headers (outgoing_of (example_platform ok_response) example_dispatcher example_credentials
        (utf16_of ''{ping}'') (utf16_of ''Ping'') [])))"
proof -
  let ?P = "example_platform ok_response"
  let ?req = "signer_request_of ?P example_dispatcher example_credentials
         (utf16_of ''{ping}'') (utf16_of ''Ping'') []"
  let ?out = "outgoing_of ?P example_dispatcher example_credentials
         (utf16_of ''{ping}'') (utf16_of ''Ping'') []"
  have h: "ambient_credentials (example_world (Some example_credentials)) = Some example_credentials"
    by (simp add: example_world_def)
  have signed: "sign ?P ?req example_credentials =
      [(''x-amz-security-token'', ''other''), (''host'', ''other.example''),
       (''Content-Type'', ''text/plain''), (''Content-Length'', ''0''),
       (''X-Amz-Date'', ''20240101T000000Z''),
       (''Authorization'', ''AWS4-HMAC-SHA256 Credential=A'')]"
    by (simp add: sign_def example_platform_def example_sign_def signer_request_of_def aws_request_of_def
        draft_of_def draft_request_def Headers_Add_def StringContent_def HostHeader_def
        XAmzSecurityTokenHeader_def equals_ignore_case_def to_lower_def example_dispatcher_def
        example_uri_def example_credentials_def Let_def)
  note t = protected_headers_survive_merge [OF h, of ?P example_dispatcher
      "utf16_of ''{ping}''" "utf16_of ''Ping''" "[]"]
  have p1: "protected_header ''Host''" and p2: "protected_header ''X-Amz-Security-Token''"
    and p3: "\<not> protected_header ''X-Amz-Date''"
    by (simp_all add: protected_header_def equals_ignore_case_def to_lower_def HostHeader_def
        XAmzSecurityTokenHeader_def ContentTypeHeader_def ContentLengthHeader_def)
  have acc: "accepts_header ?P ''X-Amz-Date''"
    by (simp add: example_platform_def)
  have host: "header_values ''Host'' (Headers ?out) = [''example.com'']"
    using t p1
    by (simp add: draft_of_def draft_request_def Headers_Add_def header_values_def
        HostHeader_def XAmzSecurityTokenHeader_def equals_ignore_case_def to_lower_def
        example_dispatcher_def example_uri_def)
  have token: "header_values ''X-Amz-Security-Token'' (Headers ?out) = [''T'']"
    using t p2
    by (simp add: draft_of_def draft_request_def Headers_Add_def header_values_def
        HostHeader_def XAmzSecurityTokenHeader_def equals_ignore_case_def to_lower_def
        example_credentials_def)
  have "(''X-Amz-Date'', ''20240101T000000Z'') \<in> set (sign ?P ?req example_credentials)"
    by (simp add: signed)
  with t p3 acc have date: "''20240101T000000Z'' \<in> set (header_values ''X-Amz-Date'' (Headers ?out))"
    by blast
  have "(''host'', ''other.example'') \<in> set (sign ?P ?req example_credentials)"
    by (simp add: signed)
  then show ?thesis using h host token date by simp
qed

section \<open>The body and the signature\<close>

text \<open>
  C2. In every call that resolves credentials, the payload is serialized once; the bytes
  given to the signer as the content of its request and the bytes of the body of the
  request that is sent are both the ASCII encoding of that one payload. The signer is
  handed a separate request object, so nothing it does reaches the body.
\<close>

theorem body_bytes_are_the_signed_bytes:
  assumes "ambient_credentials w = Some c"
  shows
    "signer_calls (snd (snd (RunGraphql plat this query operationName variables w))) =
       signer_calls w @ [(signer_request_of plat this c query operationName variables, c)] \<and>
     network (snd (snd (RunGraphql plat this query operationName variables w))) =
       network w @ [outgoing_of plat this c query operationName variables] \<and>
     aws_Content (signer_request_of plat this c query operationName variables) =
       ASCII_GetBytes (SerializeObject (write_value plat) query operationName variables) \<and>
     content_bytes (Content (outgoing_of plat this c query operationName variables)) =
       ASCII_GetBytes (SerializeObject (write_value plat) query operationName variables)"
  using assms
  by (simp add: RunGraphql_Some signer_request_of_def aws_request_of_def outgoing_of_def
      draft_of_def draft_request_def StringContent_def ReadAsStringAsync_def ASCII_roundtrip)

theorem body_bytes_are_the_signed_bytes_witness:
  "ambient_credentials (example_world (Some example_credentials)) = Some example_credentials \<and>
   aws_Content (signer_request_of (example_platform ok_response) example_dispatcher
       example_credentials (utf16_of ''{ping}'') (utf16_of ''Ping'') []) =
   content_bytes (Content (outgoing_of (example_platform ok_response) example_dispatcher
       example_credentials (utf16_of ''{ping}'') (utf16_of ''Ping'') []))"
proof -
  have h: "ambient_credentials (example_world (Some example_credentials)) = Some example_credentials"
    by (simp add: example_world_def)
  show ?thesis
    using h body_bytes_are_the_signed_bytes [OF h, of "example_platform ok_response"
      example_dispatcher "utf16_of ''{ping}''" "utf16_of ''Ping''" "[]"]
    by simp
qed

section \<open>The response\<close>

text \<open>
  C3, as amended. In every call that receives a response, a status from 200 to 299 makes
  the call succeed, and any other status makes it fail with an error that carries the
  status code and the reason phrase of the response; the response body is not part of
  the error. Exactly one request is sent: there is no retry.
\<close>

theorem status_decides_outcome:
  assumes "ambient_credentials w = Some c"
    and "send plat (outgoing_of plat this c query operationName variables) = Some r"
  shows
    "fst (RunGraphql plat this query operationName variables w) =
       (if 200 \<le> StatusCode r \<and> StatusCode r \<le> 299 then Inr ()
        else Inl (HttpRequestException (StatusCode r) (ReasonPhrase r))) \<and>
     network (snd (snd (RunGraphql plat this query operationName variables w))) =
       network w @ [outgoing_of plat this c query operationName variables]"
  using assms
  by (simp add: RunGraphql_Some EnsureSuccessStatusCode_def IsSuccessStatusCode_def)

theorem status_decides_outcome_witness:
  "ambient_credentials (example_world (Some example_credentials)) = Some example_credentials \<and>
   send (example_platform (forbidden_response ''Forbidden''))
     (outgoing_of (example_platform (forbidden_response ''Forbidden'')) example_dispatcher
        example_credentials (utf16_of ''{ping}'') (utf16_of ''Ping'') []) =
     Some (forbidden_response ''Forbidden'') \<and>
   fst (RunGraphql (example_platform (forbidden_response ''Forbidden'')) example_dispatcher
        (utf16_of ''{ping}'') (utf16_of ''Ping'') [] (example_world (Some example_credentials))) =
     Inl (HttpRequestException 403 ''Forbidden'') \<and>
   length (network (snd (snd (RunGraphql (example_platform (forbidden_response ''Forbidden''))
        example_dispatcher (utf16_of ''{ping}'') (utf16_of ''Ping'') []
        (example_world (Some example_credentials)))))) = 1"
proof -
  have h: "ambient_credentials (example_world (Some example_credentials)) = Some example_credentials"
    by (simp add: example_world_def)
  have r: "send (example_platform (forbidden_response ''Forbidden''))
     (outgoing_of (example_platform (forbidden_response ''Forbidden'')) example_dispatcher
        example_credentials (utf16_of ''{ping}'') (utf16_of ''Ping'') []) =
     Some (forbidden_response ''Forbidden'')"
    by (simp add: example_platform_def)
  have n: "network (example_world (Some example_credentials)) = []"
    by (simp add: example_world_def)
  show ?thesis
    using h r n status_decides_outcome [OF h r]
    by (simp add: forbidden_response_def)
qed

text \<open>
  C3, as stated, fails: two responses with status 403 that differ only in their bodies,
  \<^verbatim>\<open>Forbidden\<close> and \<^verbatim>\<open>Denied\<close>, make the call fail with the same
  error, so the error does not carry the body.
\<close>

theorem upstream_error_without_body:
  "fst (RunGraphql (example_platform (forbidden_response ''Forbidden'')) example_dispatcher
        (utf16_of ''{ping}'') (utf16_of ''Ping'') [] (example_world (Some example_credentials))) =
     Inl (HttpRequestException 403 ''Forbidden'') \<and>
   fst (RunGraphql (example_platform (forbidden_response ''Denied'')) example_dispatcher
        (utf16_of ''{ping}'') (utf16_of ''Ping'') [] (example_world (Some example_credentials))) =
     Inl (HttpRequestException 403 ''Forbidden'') \<and>
   response_body (forbidden_response ''Forbidden'') \<noteq> response_body (forbidden_response ''Denied'')"
proof -
  have h: "ambient_credentials (example_world (Some example_credentials)) = Some example_credentials"
    by (simp add: example_world_def)
  have a: "fst (RunGraphql (example_platform (forbidden_response b)) example_dispatcher
        (utf16_of ''{ping}'') (utf16_of ''Ping'') [] (example_world (Some example_credentials))) =
     Inl (HttpRequestException 403 ''Forbidden'')" for b
    by (simp add: RunGraphql_Some [OF h] example_platform_def EnsureSuccessStatusCode_def
        IsSuccessStatusCode_def forbidden_response_def)
  have b: "response_body (forbidden_response ''Forbidden'') \<noteq>
      response_body (forbidden_response ''Denied'')"
    by (simp add: forbidden_response_def ASCII_GetBytes_def utf16_of_def)
  show ?thesis using a b by simp
qed

section \<open>The body on the wire\<close>

text \<open>
  C5. The claim fails on the code for text outside ASCII. The serializer writes the code
  unit U+00E9 of the query as it is, and the ASCII encoding of the body replaces it by a
  question mark: the call with the query \<^verbatim>\<open>U+00E9\<close> and the call with the
  query \<^verbatim>\<open>?\<close> put the same bytes on the wire, so no parser gets the first
  query back.
\<close>

theorem non_ascii_query_is_replaced:
  \<open>map (content_bytes \<circ> Content)
     (network (snd (snd (RunGraphql (example_platform ok_response) example_dispatcher
        [0xE9] (utf16_of ''Ping'') [] (example_world (Some example_credentials)))))) =
     [ASCII_GetBytes (utf16_of ''{"query":"?","operationName":"Ping","variables":{}}'')] \<and>
   map (content_bytes \<circ> Content)
     (network (snd (snd (RunGraphql (example_platform ok_response) example_dispatcher
        [0x3F] (utf16_of ''Ping'') [] (example_world (Some example_credentials)))))) =
     [ASCII_GetBytes (utf16_of ''{"query":"?","operationName":"Ping","variables":{}}'')]\<close>
proof -
  have h: "ambient_credentials (example_world (Some example_credentials)) = Some example_credentials"
    by (simp add: example_world_def)
  have n: "network (example_world (Some example_credentials)) = []"
    by (simp add: example_world_def)
  have b: "content_bytes (Content (outgoing_of plat this c q operationName variables)) =
      ASCII_GetBytes (SerializeObject (write_value plat) q operationName variables)"
    for plat :: "unit platform" and this c q operationName variables
    by (simp add: outgoing_of_def draft_of_def draft_request_def StringContent_def)
  have e: \<open>ASCII_GetBytes (SerializeObject wv [0xE9] (utf16_of ''Ping'') []) =
      ASCII_GetBytes (utf16_of ''{"query":"?","operationName":"Ping","variables":{}}'')\<close>
    for wv :: "unit \<Rightarrow> utf16"
    by (simp add: SerializeObject_def write_string_def write_dictionary_def escape_char_def
        utf16_of_def ASCII_GetBytes_def ascii_byte_def)
  have q: \<open>ASCII_GetBytes (SerializeObject wv [0x3F] (utf16_of ''Ping'') []) =
      ASCII_GetBytes (utf16_of ''{"query":"?","operationName":"Ping","variables":{}}'')\<close>
    for wv :: "unit \<Rightarrow> utf16"
    by (simp add: SerializeObject_def write_string_def write_dictionary_def escape_char_def
        utf16_of_def ASCII_GetBytes_def ascii_byte_def)
  show ?thesis
    by (simp add: RunGraphql_Some [OF h] n b e q)
qed

section \<open>Construction\<close>

text \<open>
  C6. The constructor returns an error, and no dispatcher, whenever the URI parser rejects
  the endpoint, and whenever the region argument is null or blank while the environment
  has no \<^verbatim>\<open>AWS_REGION\<close>.
\<close>

theorem constructor_fails_fast:
  "(new_Uri plat e = None \<longrightarrow>
      AppSyncOperations_new plat w (Some e) awsRegion = Inl UriFormatException) \<and>
   (IsNullOrWhiteSpace awsRegion \<and> environment w ''AWS_REGION'' = None \<longrightarrow>
      AppSyncOperations_new plat w graphQlEndpoint awsRegion = Inl ArgumentNullException \<or>
      AppSyncOperations_new plat w graphQlEndpoint awsRegion = Inl UriFormatException)"
  by (auto simp add: AppSyncOperations_new_def GetBySystemName_def Let_def split: option.splits)

theorem constructor_fails_fast_witness:
  "new_Uri (example_platform ok_response) ''example.com/graphql'' = None \<and>
   AppSyncOperations_new (example_platform ok_response) (example_world None)
     (Some ''example.com/graphql'') (Some ''us-east-1'') = Inl UriFormatException \<and>
   IsNullOrWhiteSpace (Some '' '') \<and>
   environment ((example_world None)\<lparr>environment := Map.empty\<rparr>) ''AWS_REGION'' = None \<and>
   (AppSyncOperations_new (example_platform ok_response)
      ((example_world None)\<lparr>environment := Map.empty\<rparr>)
      (Some ''https://example.com/graphql'') (Some '' '') = Inl ArgumentNullException \<or>
    AppSyncOperations_new (example_platform ok_response)
      ((example_world None)\<lparr>environment := Map.empty\<rparr>)
      (Some ''https://example.com/graphql'') (Some '' '') = Inl UriFormatException)"
proof -
  have a: "new_Uri (example_platform ok_response) ''example.com/graphql'' = None"
    by (simp add: example_platform_def)
  have b: "IsNullOrWhiteSpace (Some '' '')"
    by (simp add: IsNullOrWhiteSpace_def is_white_space_def)
  have c: "environment ((example_world None)\<lparr>environment := Map.empty\<rparr>) ''AWS_REGION'' = None"
    by simp
  from a constructor_fails_fast [of "example_platform ok_response" "''example.com/graphql''"
      "example_world None" "Some ''us-east-1''"]
  have d: "AppSyncOperations_new (example_platform ok_response) (example_world None)
     (Some ''example.com/graphql'') (Some ''us-east-1'') = Inl UriFormatException"
    by blast
  from b c constructor_fails_fast [of "example_platform ok_response" "''x''"
      "(example_world None)\<lparr>environment := Map.empty\<rparr>" "Some '' ''"
      "Some ''https://example.com/graphql''"]
  have e: "AppSyncOperations_new (example_platform ok_response)
      ((example_world None)\<lparr>environment := Map.empty\<rparr>)
      (Some ''https://example.com/graphql'') (Some '' '') = Inl ArgumentNullException \<or>
    AppSyncOperations_new (example_platform ok_response)
      ((example_world None)\<lparr>environment := Map.empty\<rparr>)
      (Some ''https://example.com/graphql'') (Some '' '') = Inl UriFormatException"
    by blast
  show ?thesis using a b c d e by blast
qed

text \<open>
  C8. With an endpoint that parses, the region of the dispatcher is the SDK's endpoint for
  the constructor argument whenever that argument is neither null nor blank, whatever the
  environment holds, and the SDK's endpoint for the value of \<^verbatim>\<open>AWS_REGION\<close>
  otherwise.
\<close>

theorem effective_region:
  assumes "new_Uri plat e = Some uri"
  shows
    "(\<not> IsNullOrWhiteSpace (Some r) \<longrightarrow>
        AppSyncOperations_new plat w (Some e) (Some r) =
          Inr \<lparr>this_graphQlEndpoint = uri, this_awsRegion = region_by_name plat r\<rparr>) \<and>
     (IsNullOrWhiteSpace awsRegion \<and> environment w ''AWS_REGION'' = Some r \<longrightarrow>
        AppSyncOperations_new plat w (Some e) awsRegion =
          Inr \<lparr>this_graphQlEndpoint = uri, this_awsRegion = region_by_name plat r\<rparr>)"
  using assms
  by (simp add: AppSyncOperations_new_def GetBySystemName_def Let_def)

theorem effective_region_witness:
  "new_Uri (example_platform ok_response) ''https://example.com/graphql'' = Some example_uri \<and>
   \<not> IsNullOrWhiteSpace (Some ''us-east-1'') \<and>
   environment (example_world None) ''AWS_REGION'' = Some ''eu-west-1'' \<and>
   AppSyncOperations_new (example_platform ok_response) (example_world None)
     (Some ''https://example.com/graphql'') (Some ''us-east-1'') =
     Inr \<lparr>this_graphQlEndpoint = example_uri, this_awsRegion = \<lparr>SystemName = ''us-east-1''\<rparr>\<rparr> \<and>
   IsNullOrWhiteSpace None \<and>
   AppSyncOperations_new (example_platform ok_response) (example_world None)
     (Some ''https://example.com/graphql'') None =
     Inr \<lparr>this_graphQlEndpoint = example_uri, this_awsRegion = \<lparr>SystemName = ''eu-west-1''\<rparr>\<rparr>"
proof -
  have u: "new_Uri (example_platform ok_response) ''https://example.com/graphql'' = Some example_uri"
    by (simp add: example_platform_def)
  have a: "\<not> IsNullOrWhiteSpace (Some ''us-east-1'')"
    by (simp add: IsNullOrWhiteSpace_def is_white_space_def)
  have b: "IsNullOrWhiteSpace None"
    by (simp add: IsNullOrWhiteSpace_def)
  have c: "environment (example_world None) ''AWS_REGION'' = Some ''eu-west-1''"
    by (simp add: example_world_def)
  have t: "region_by_name (example_platform ok_response) s = \<lparr>SystemName = s\<rparr>" for s
    by (simp add: example_platform_def)
  show ?thesis
    using u a b c
      effective_region [OF u, of "''us-east-1''" "example_world None" None]
      effective_region [OF u, of "''eu-west-1''" "example_world None" None]
    by (simp add: t)
qed

section \<open>What the signer is given\<close>

text \<open>
  C7. In every call that resolves credentials, the request that goes out on the network
  is the draft with the headers merged in that the signer leaves when it is called with
  exactly this: a request object for the service \<^verbatim>\<open>appsync\<close>, with the
  endpoint of the dispatcher, the region of the dispatcher as its alternate endpoint,
  the method POST, the bytes of the payload and the draft's three headers; the client
  configuration of AppSync, whose signing name is \<^verbatim>\<open>appsync\<close>; no metrics;
  and the credentials just resolved, so their secret key. The world records this one
  call of the signer. The region of the dispatcher is the one the constructor set.
\<close>

theorem signer_scope_and_key:
  assumes "ambient_credentials w = Some c"
  shows
    "(let draft =
            draft_request this c
              (SerializeObject (write_value plat) query operationName variables);
          request =
            \<lparr>ServiceName = ''appsync'',
             aws_Content =
               ASCII_GetBytes (SerializeObject (write_value plat) query operationName variables),
             HttpMethod = ''POST'',
             Endpoint = this_graphQlEndpoint this,
             AlternateEndpoint = this_awsRegion this,
             aws_Headers =
               [(XAmzSecurityTokenHeader, Token c),
                (HostHeader, Host (this_graphQlEndpoint this)),
                (''Content-Type'', ''application/json; charset=us-ascii'')]\<rparr>
      in network (snd (snd (RunGraphql plat this query operationName variables w))) =
           network w @
             [draft\<lparr>Headers :=
                merge_signed_headers (accepts_header plat)
                  (signature_headers plat request AmazonAppSyncConfig None c)
                  (Headers draft)\<rparr>] \<and>
         signer_calls (snd (snd (RunGraphql plat this query operationName variables w))) =
           signer_calls w @ [(request, c)] \<and>
         signer_request_of plat this c query operationName variables = request) \<and>
     AuthenticationServiceName AmazonAppSyncConfig = ''appsync''"
proof -
  let ?payload = "SerializeObject (write_value plat) query operationName variables"
  let ?draft = "draft_request this c ?payload"
  have hs: "Headers ?draft =
      [(XAmzSecurityTokenHeader, [Token c]), (HostHeader, [Host (this_graphQlEndpoint this)])]"
    by (simp add: draft_request_def Headers_Add_def XAmzSecurityTokenHeader_def HostHeader_def
        equals_ignore_case_def to_lower_def)
  have ch: "content_headers (Content ?draft) =
      [(''Content-Type'', [''application/json; charset=us-ascii''])]"
    by (simp add: draft_request_def StringContent_def)
  have copied: "copy_headers (Headers ?draft @ content_headers (Content ?draft)) [] =
      [(XAmzSecurityTokenHeader, Token c), (HostHeader, Host (this_graphQlEndpoint this)),
       (''Content-Type'', ''application/json; charset=us-ascii'')]"
    by (simp add: hs ch XAmzSecurityTokenHeader_def HostHeader_def equals_ignore_case_def
        to_lower_def)
  have bytes: "ASCII_GetBytes (ReadAsStringAsync (Content ?draft)) = ASCII_GetBytes ?payload"
    by (simp add: draft_request_def StringContent_def ReadAsStringAsync_def ASCII_roundtrip)
  have req: "signer_request_of plat this c query operationName variables =
      \<lparr>ServiceName = ''appsync'', aws_Content = ASCII_GetBytes ?payload, HttpMethod = ''POST'',
       Endpoint = this_graphQlEndpoint this, AlternateEndpoint = this_awsRegion this,
       aws_Headers =
         [(XAmzSecurityTokenHeader, Token c), (HostHeader, Host (this_graphQlEndpoint this)),
          (''Content-Type'', ''application/json; charset=us-ascii'')]\<rparr>"
    by (simp add: signer_request_of_def draft_of_def aws_request_of_def Let_def copied bytes)
  have run: "RunGraphql plat this query operationName variables w =
      ((case send plat (outgoing_of plat this c query operationName variables) of
          None \<Rightarrow> Inl SendAsyncFailed
        | Some r \<Rightarrow> EnsureSuccessStatusCode r),
       this,
       w\<lparr>signer_calls :=
             signer_calls w @ [(signer_request_of plat this c query operationName variables, c)],
         network := network w @ [outgoing_of plat this c query operationName variables]\<rparr>)"
    using assms by (rule RunGraphql_Some)
  have out: "outgoing_of plat this c query operationName variables =
      ?draft\<lparr>Headers :=
        merge_signed_headers (accepts_header plat)
          (signature_headers plat (signer_request_of plat this c query operationName variables)
             AmazonAppSyncConfig None c)
          (Headers ?draft)\<rparr>"
    by (simp add: outgoing_of_def draft_of_def sign_def)
  show ?thesis
    by (simp add: Let_def run out req AmazonAppSyncConfig_def)
qed

theorem signer_scope_and_key_witness:
  "ambient_credentials (example_world (Some example_credentials)) = Some example_credentials \<and>
   map (\<lambda>m. header_values ''X-Scope'' (Headers m))
     (network (snd (snd (RunGraphql
        ((example_platform ok_response)\<lparr>signature_headers := scope_sign\<rparr>) example_dispatcher
        (utf16_of ''{ping}'') (utf16_of ''Ping'') [] (example_world (Some example_credentials))))))
   = [[''appsync/appsync/us-east-1/B'']] \<and>
   map (\<lambda>(r, c). (ServiceName r, SystemName (AlternateEndpoint r), SecretKey c))
     (signer_calls (snd (snd (RunGraphql
        ((example_platform ok_response)\<lparr>signature_headers := scope_sign\<rparr>) example_dispatcher
        (utf16_of ''{ping}'') (utf16_of ''Ping'') [] (example_world (Some example_credentials))))))
   = [(''appsync'', ''us-east-1'', ''B'')]"
proof -
  let ?P = "(example_platform ok_response)\<lparr>signature_headers := scope_sign\<rparr>"
  have h: "ambient_credentials (example_world (Some example_credentials)) = Some example_credentials"
    by (simp add: example_world_def)
  have n: "network (example_world (Some example_credentials)) = []"
    "signer_calls (example_world (Some example_credentials)) = []"
    by (simp_all add: example_world_def)
  have p: "signature_headers ?P = scope_sign" "accepts_header ?P = (\<lambda>_. True)"
    by (simp_all add: example_platform_def)
  let ?w' = "snd (snd (RunGraphql ?P example_dispatcher
      (utf16_of ''{ping}'') (utf16_of ''Ping'') [] (example_world (Some example_credentials))))"
  let ?payload = "SerializeObject (write_value ?P) (utf16_of ''{ping}'') (utf16_of ''Ping'') []"
  let ?draft = "draft_request example_dispatcher example_credentials ?payload"
  let ?req = "\<lparr>ServiceName = ''appsync'', aws_Content = ASCII_GetBytes ?payload,
      HttpMethod = ''POST'', Endpoint = this_graphQlEndpoint example_dispatcher,
      AlternateEndpoint = this_awsRegion example_dispatcher,
      aws_Headers =
        [(XAmzSecurityTokenHeader, Token example_credentials),
         (HostHeader, Host (this_graphQlEndpoint example_dispatcher)),
         (''Content-Type'', ''application/json; charset=us-ascii'')]\<rparr>"
  let ?signed = "scope_sign ?req AmazonAppSyncConfig None example_credentials"
  note t = signer_scope_and_key [OF h, of example_dispatcher ?P
      "utf16_of ''{ping}''" "utf16_of ''Ping''" "[]"]
  from t have net: "network ?w' =
      [?draft\<lparr>Headers := merge_signed_headers (\<lambda>_. True) ?signed (Headers ?draft)\<rparr>]"
    by (simp add: Let_def n p)
  from t have calls: "signer_calls ?w' = [(?req, example_credentials)]"
    by (simp add: Let_def n p)
  have signed: "?signed =
      [(''x-amz-security-token'', ''T''), (''host'', ''example.com''),
       (''Content-Type'', ''application/json; charset=us-ascii''),
       (''X-Scope'', ''appsync/appsync/us-east-1/B'')]"
    by (simp add: scope_sign_def AmazonAppSyncConfig_def HostHeader_def
        XAmzSecurityTokenHeader_def equals_ignore_case_def to_lower_def example_dispatcher_def
        example_uri_def example_credentials_def)
  have x: "header_values ''X-Scope''
      (merge_signed_headers (\<lambda>_. True) ?signed (Headers ?draft)) =
      [''appsync/appsync/us-east-1/B'']"
    unfolding signed
    by (simp add: draft_request_def Headers_Add_def TryAddWithoutValidation_def
        header_values_def HostHeader_def XAmzSecurityTokenHeader_def ContentTypeHeader_def
        ContentLengthHeader_def equals_ignore_case_def to_lower_def)
  have y: "(ServiceName ?req, SystemName (AlternateEndpoint ?req), SecretKey example_credentials) =
      (''appsync'', ''us-east-1'', ''B'')"
    by (simp add: example_dispatcher_def example_credentials_def)
  show ?thesis
    using h x y by (simp add: net calls)
qed

section \<open>The frame of a call\<close>

text \<open>
  C9. A call hands back the dispatcher it was given, with the same endpoint and region,
  and leaves the environment and the ambient credentials as they are. With no credentials
  the world is unchanged; otherwise the only change is one more request sent and one more
  call of the signer, made with the credentials the world holds at the time of this call.
\<close>

theorem dispatch_frame:
  "(case RunGraphql plat this query operationName variables w of
      (result, this', w') \<Rightarrow>
        this' = this \<and>
        environment w' = environment w \<and>
        ambient_credentials w' = ambient_credentials w \<and>
        (case ambient_credentials w of
           None \<Rightarrow> w' = w
         | Some c \<Rightarrow>
             w' = w\<lparr>signer_calls :=
                      signer_calls w @ [(signer_request_of plat this c query operationName variables, c)],
                    network := network w @ [outgoing_of plat this c query operationName variables]\<rparr>))"
proof (cases "ambient_credentials w")
  case None
  then show ?thesis by (simp add: RunGraphql_def)
next
  case (Some c)
  then show ?thesis by (simp add: RunGraphql_Some)
qed

theorem dispatch_frame_witness:
  "(case RunGraphql (example_platform ok_response) example_dispatcher
        (utf16_of ''{ping}'') (utf16_of ''Ping'') [] (example_world (Some example_credentials)) of
     (r1, this1, w1) \<Rightarrow>
       (case RunGraphql (example_platform ok_response) this1
          (utf16_of ''{ping}'') (utf16_of ''Ping'') []
          (w1\<lparr>ambient_credentials := Some (example_credentials\<lparr>Token := ''T2''\<rparr>)\<rparr>) of
        (r2, this2, w2) \<Rightarrow>
          this2 = example_dispatcher \<and>
          map (Token \<circ> snd) (signer_calls w2) = [''T'', ''T2''] \<and>
          length (network w2) = 2))"
proof -
  let ?P = "example_platform ok_response"
  let ?q = "utf16_of ''{ping}''" and ?o = "utf16_of ''Ping''"
  let ?w = "example_world (Some example_credentials)"
  note a = dispatch_frame [where plat = ?P and this = example_dispatcher and query = ?q
      and operationName = ?o and variables = "[]" and w = ?w]
  obtain r1 this1 w1 where r1: "RunGraphql ?P example_dispatcher ?q ?o [] ?w = (r1, this1, w1)"
    by (cases "RunGraphql ?P example_dispatcher ?q ?o [] ?w") auto
  let ?w1' = "w1\<lparr>ambient_credentials := Some (example_credentials\<lparr>Token := ''T2''\<rparr>)\<rparr>"
  note b = dispatch_frame [where plat = ?P and this = this1 and query = ?q
      and operationName = ?o and variables = "[]" and w = ?w1']
  obtain r2 this2 w2 where r2: "RunGraphql ?P this1 ?q ?o [] ?w1' = (r2, this2, w2)"
    by (cases "RunGraphql ?P this1 ?q ?o [] ?w1'") auto
  from a r1 have a': "this1 = example_dispatcher"
    "w1 = ?w\<lparr>signer_calls := signer_calls ?w @
            [(signer_request_of ?P example_dispatcher example_credentials ?q ?o [], example_credentials)],
          network := network ?w @ [outgoing_of ?P example_dispatcher example_credentials ?q ?o []]\<rparr>"
    by (simp_all add: example_world_def)
  from b r2 have b': "this2 = this1"
    "w2 = ?w1'\<lparr>signer_calls := signer_calls ?w1' @
            [(signer_request_of ?P this1 (example_credentials\<lparr>Token := ''T2''\<rparr>) ?q ?o [],
              example_credentials\<lparr>Token := ''T2''\<rparr>)],
          network := network ?w1' @
            [outgoing_of ?P this1 (example_credentials\<lparr>Token := ''T2''\<rparr>) ?q ?o []]\<rparr>"
    by simp_all
  show ?thesis
    unfolding r1 
    apply (simp only: prod.case)
    unfolding r2
    apply (simp only: prod.case)
    using a' b'
    apply (simp add: example_world_def example_credentials_def)
    done
qed

section \<open>The image resizer never upscales\<close>

text \<open>
  C10. Whenever the resizer returns data, the data is the encoding of a bitmap whose width
  is the smaller of the requested width and the source's width and whose height is the
  smaller of the requested height and the source's height, so neither exceeds the source
  or the request. It does return data for a source that decodes and a positive requested
  size, when the library scales and encodes. \<^verbatim>\<open>ResizeAsync\<close> is the same
  function on the bytes of its stream.
\<close>

theorem resize_never_upscales:
  "(\<forall>data. Resize lib fileContents maxWidth maxHeight = Inr data \<longrightarrow>
      (\<exists>src scaled.
         Decode lib fileContents = Some src \<and> Encode lib scaled = Some data \<and>
         Width scaled = min maxWidth (Width src) \<and>
         Height scaled = min maxHeight (Height src) \<and>
         Width scaled \<le> Width src \<and> Height scaled \<le> Height src \<and>
         Width scaled \<le> maxWidth \<and> Height scaled \<le> maxHeight)) \<and>
   (\<forall>src p data.
      Decode lib fileContents = Some src \<and>
      0 < maxWidth \<and> 0 < maxHeight \<and> 0 < Width src \<and> 0 < Height src \<and>
      ScalePixels lib src (min maxWidth (Width src)) (min maxHeight (Height src)) = Some p \<and>
      Encode lib \<lparr>Width = min maxWidth (Width src), Height = min maxHeight (Height src),
                  Pixels = p\<rparr> = Some data \<longrightarrow>
      Resize lib fileContents maxWidth maxHeight = Inr data) \<and>
   ResizeAsync lib fileContents \<lparr>Size_Width = maxWidth, Size_Height = maxHeight\<rparr> =
     Resize lib fileContents maxWidth maxHeight"
proof (intro conjI allI impI)
  fix data
  assume r: "Resize lib fileContents maxWidth maxHeight = Inr data"
  then obtain src where src: "Decode lib fileContents = Some src"
    by (auto simp add: Resize_def split: option.splits)
  from r src obtain scaled where
    sc: "SKBitmap_Resize lib src (min maxWidth (Width src)) (min maxHeight (Height src)) = Some scaled"
    and enc: "Encode lib scaled = Some data"
    by (auto simp add: Resize_def Let_def split: option.splits)
  from sc have "Width scaled = min maxWidth (Width src)" "Height scaled = min maxHeight (Height src)"
    by (auto simp add: SKBitmap_Resize_def split: if_splits option.splits)
  then show "\<exists>src scaled.
         Decode lib fileContents = Some src \<and> Encode lib scaled = Some data \<and>
         Width scaled = min maxWidth (Width src) \<and>
         Height scaled = min maxHeight (Height src) \<and>
         Width scaled \<le> Width src \<and> Height scaled \<le> Height src \<and>
         Width scaled \<le> maxWidth \<and> Height scaled \<le> maxHeight"
    using src enc by auto
next
  fix src p data
  assume "Decode lib fileContents = Some src \<and>
      0 < maxWidth \<and> 0 < maxHeight \<and> 0 < Width src \<and> 0 < Height src \<and>
      ScalePixels lib src (min maxWidth (Width src)) (min maxHeight (Height src)) = Some p \<and>
      Encode lib \<lparr>Width = min maxWidth (Width src), Height = min maxHeight (Height src),
                  Pixels = p\<rparr> = Some data"
  then show "Resize lib fileContents maxWidth maxHeight = Inr data"
    by (auto simp add: Resize_def SKBitmap_Resize_def Let_def)
next
  show "ResizeAsync lib fileContents \<lparr>Size_Width = maxWidth, Size_Height = maxHeight\<rparr> =
     Resize lib fileContents maxWidth maxHeight"
    by (simp add: ResizeAsync_def)
qed

theorem resize_never_upscales_witness:
  "Resize example_skia [1] 100 1000 = Inr [100, 224] \<and>
   (\<exists>src scaled.
      Decode example_skia [1] = Some src \<and> Encode example_skia scaled = Some [100, 224] \<and>
      Width scaled = min 100 (Width src) \<and> Height scaled = min 1000 (Height src) \<and>
      Width scaled \<le> Width src \<and> Height scaled \<le> Height src \<and>
      Width scaled \<le> 100 \<and> Height scaled \<le> 1000)"
proof -
  have r: "Resize example_skia [1] 100 1000 = Inr [100, 224]"
    by (simp add: Resize_def SKBitmap_Resize_def example_skia_def Let_def)
  from r resize_never_upscales [of example_skia "[1]" 100 1000] show ?thesis
    by blast
qed

end
